theory Spec2Isabelle
  imports Complex_Main "HOL-Library.Multiset"
begin

section \<open>JavaScript values\<close>

text \<open>
  The calculator (\<^verbatim>\<open>js/calculator.js\<close>) and the route directory
  (\<^verbatim>\<open>routes-data.js\<close>) work on JavaScript numbers and strings.

  A number is an IEEE 754 double. The model keeps the three special values that the
  code can be handed and that change its control flow (\<open>NaN\<close>, \<open>+Infinity\<close>,
  \<open>-Infinity\<close>) and follows IEEE 754 on them. A finite double is modelled by the real
  number it denotes and arithmetic on finite values is exact: binary rounding error,
  overflow of a finite result and the sign of zero are outside the model (\<open>-0\<close> and
  \<open>+0\<close> are one value, which the code cannot tell apart: it never divides by zero
  and only compares with \<open><\<close>, \<open>>\<close> and \<open>===\<close>).
\<close>

datatype jsnum = Fin real | PInf | NInf | NaN

text \<open>A value as \<^verbatim>\<open>typeof\<close> sees it: only \<open>JNumber\<close> has type \<^verbatim>\<open>'number'\<close>.\<close>

datatype jsval = JNumber jsnum | JString string | JBoolean bool | JUndefined | JNull

fun js_mul :: "jsnum \<Rightarrow> jsnum \<Rightarrow> jsnum" where
  "js_mul NaN y = NaN"
| "js_mul x NaN = NaN"
| "js_mul (Fin a) (Fin b) = Fin (a * b)"
| "js_mul (Fin a) PInf = (if a = 0 then NaN else if 0 < a then PInf else NInf)"
| "js_mul (Fin a) NInf = (if a = 0 then NaN else if 0 < a then NInf else PInf)"
| "js_mul PInf (Fin b) = (if b = 0 then NaN else if 0 < b then PInf else NInf)"
| "js_mul NInf (Fin b) = (if b = 0 then NaN else if 0 < b then NInf else PInf)"
| "js_mul PInf PInf = PInf"
| "js_mul PInf NInf = NInf"
| "js_mul NInf PInf = NInf"
| "js_mul NInf NInf = PInf"

fun js_div :: "jsnum \<Rightarrow> jsnum \<Rightarrow> jsnum" where
  "js_div NaN y = NaN"
| "js_div x NaN = NaN"
| "js_div (Fin a) (Fin b) =
     (if b = 0 then (if a = 0 then NaN else if 0 < a then PInf else NInf) else Fin (a / b))"
| "js_div (Fin a) PInf = Fin 0"
| "js_div (Fin a) NInf = Fin 0"
| "js_div PInf (Fin b) = (if 0 \<le> b then PInf else NInf)"
| "js_div NInf (Fin b) = (if 0 \<le> b then NInf else PInf)"
| "js_div PInf PInf = NaN"
| "js_div PInf NInf = NaN"
| "js_div NInf PInf = NaN"
| "js_div NInf NInf = NaN"


fun js_sub :: "jsnum \<Rightarrow> jsnum \<Rightarrow> jsnum" where
  "js_sub NaN y = NaN"
| "js_sub x NaN = NaN"
| "js_sub (Fin a) (Fin b) = Fin (a - b)"
| "js_sub (Fin a) PInf = NInf"
| "js_sub (Fin a) NInf = PInf"
| "js_sub PInf (Fin b) = PInf"
| "js_sub NInf (Fin b) = NInf"
| "js_sub PInf PInf = NaN"
| "js_sub PInf NInf = PInf"
| "js_sub NInf PInf = NInf"
| "js_sub NInf NInf = NaN"

text \<open>\<open>x < y\<close>: false as soon as an operand is \<open>NaN\<close>. \<open>x > y\<close> is \<open>js_lt y x\<close>.\<close>

fun js_lt :: "jsnum \<Rightarrow> jsnum \<Rightarrow> bool" where
  "js_lt NaN y = False"
| "js_lt x NaN = False"
| "js_lt (Fin a) (Fin b) = (a < b)"
| "js_lt (Fin a) PInf = True"
| "js_lt (Fin a) NInf = False"
| "js_lt PInf y = False"
| "js_lt NInf (Fin b) = True"
| "js_lt NInf PInf = True"
| "js_lt NInf NInf = False"

text \<open>\<open>x === y\<close> on numbers: \<open>NaN\<close> equals nothing, itself included.\<close>

fun js_strict_eq :: "jsnum \<Rightarrow> jsnum \<Rightarrow> bool" where
  "js_strict_eq NaN y = False"
| "js_strict_eq x NaN = False"
| "js_strict_eq x y = (x = y)"

text \<open>
  \<^verbatim>\<open>Math.round\<close>: the nearest integer, a tie going towards \<open>+\<infinity>\<close>; \<open>NaN\<close> and the
  infinities are returned as they are.
\<close>

fun Math_round :: "jsnum \<Rightarrow> jsnum" where
  "Math_round (Fin x) = Fin (of_int \<lfloor>x + 1 / 2\<rfloor>)"
| "Math_round x = x"

subsection \<open>Strings\<close>

text \<open>
  A JavaScript string is a sequence of UTF-16 code units. The model is \<open>string\<close>, a
  list of 8-bit characters, read as the code units \<open>0\<close> to \<open>255\<close> (Latin-1): every
  city name of the route table and every mode key is such a string, and both
  \<^verbatim>\<open>trim\<close> and \<^verbatim>\<open>toLowerCase\<close> map such strings to such strings.

  \<^verbatim>\<open>trim\<close> removes white space and line terminators at both ends; below 256 these
  are the code units 9 to 13, 32 and 160.
\<close>

definition is_white :: "char \<Rightarrow> bool" where
  "is_white c = (let n = (of_char c :: nat) in (9 \<le> n \<and> n \<le> 13) \<or> n = 32 \<or> n = 160)"

definition trim :: "string \<Rightarrow> string" where
  "trim s = rev (dropWhile is_white (rev (dropWhile is_white s)))"

text \<open>
  \<^verbatim>\<open>toLowerCase\<close>: below 256 the letters with a lower-case partner are \<open>A\<close> to \<open>Z\<close>
  (65 to 90) and the accented capitals 192 to 222 without the multiplication sign 215;
  the partner is 32 higher, that is, bit 5 set.
\<close>

definition is_upper :: "char \<Rightarrow> bool" where
  "is_upper c = (let n = (of_char c :: nat) in
     (65 \<le> n \<and> n \<le> 90) \<or> (192 \<le> n \<and> n \<le> 222 \<and> n \<noteq> 215))"

fun set_bit5 :: "char \<Rightarrow> char" where
  "set_bit5 (Char b0 b1 b2 b3 b4 b5 b6 b7) = Char b0 b1 b2 b3 b4 True b6 b7"

definition lower_char :: "char \<Rightarrow> char" where
  "lower_char c = (if is_upper c then set_bit5 c else c)"

definition toLowerCase :: "string \<Rightarrow> string" where
  "toLowerCase s = map lower_char s"

section \<open>Configuration (js/config.js)\<close>

text \<open>
  \<^verbatim>\<open>CONFIG.EMISSION_FACTORS\<close> is an object literal; \<^verbatim>\<open>for ... in\<close> visits its keys
  in the order they are written, so the table is an association list in that order.
\<close>

definition EMISSION_FACTORS :: "(string \<times> real) list" where
  "EMISSION_FACTORS =
     [(''bicicleta'', 0), (''carro'', 12 / 100), (''onibus'', 89 / 1000), (''caminhao'', 96 / 100)]"




section \<open>Calculator (js/calculator.js)\<close>

text \<open>
  Every method starts with the guard
  \<^verbatim>\<open>typeof x !== 'number' || x < 0\<close>. The second guard, on \<^verbatim>\<open>CONFIG\<close> being
  defined, never fires: \<^verbatim>\<open>config.js\<close> defines both tables.
\<close>

definition rejected :: "jsval \<Rightarrow> bool" where
  "rejected v = (case v of JNumber n \<Rightarrow> js_lt n (Fin 0) | _ \<Rightarrow> True)"

definition calculateEmission :: "jsval \<Rightarrow> string \<Rightarrow> jsnum" where
  "calculateEmission distanceKm transportMode =
     (case distanceKm of
        JNumber d \<Rightarrow>
          if js_lt d (Fin 0) then Fin 0
          else
            (let mode = toLowerCase (trim transportMode) in
             case map_of EMISSION_FACTORS mode of
               None \<Rightarrow> Fin 0
             | Some factor \<Rightarrow>
                 (let emission = js_mul d (Fin factor)
                  in js_div (Math_round (js_mul emission (Fin 100))) (Fin 100)))
      | _ \<Rightarrow> Fin 0)"

record mode_result =
  mode :: string
  emission :: jsnum
  percentageVsCar :: jsnum

text \<open>
  \<^verbatim>\<open>results.sort(function (a, b) { return a.emission - b.emission; })\<close>.
  \<^verbatim>\<open>Array.prototype.sort\<close> is stable, puts \<open>a\<close> after \<open>b\<close> when the comparator
  returns a positive number and takes a \<open>NaN\<close> from the comparator for \<open>0\<close>, a tie. The
  model is the stable insertion sort driven by the comparator. The language fixes the
  result whenever the comparator is consistent, and this is it; here the differences
  are either all finite (a finite distance) or all \<open>NaN\<close>, hence all ties (the distance
  \<open>NaN\<close> or \<open>+Infinity\<close>).
\<close>

fun sort_insert :: "('a \<Rightarrow> 'a \<Rightarrow> jsnum) \<Rightarrow> 'a \<Rightarrow> 'a list \<Rightarrow> 'a list" where
  "sort_insert cmp x [] = [x]"
| "sort_insert cmp x (y # ys) =
     (if js_lt (Fin 0) (cmp x y) then y # sort_insert cmp x ys else x # y # ys)"

definition array_sort :: "('a \<Rightarrow> 'a \<Rightarrow> jsnum) \<Rightarrow> 'a list \<Rightarrow> 'a list" where
  "array_sort cmp xs = foldr (sort_insert cmp) xs []"

definition by_emission :: "mode_result \<Rightarrow> mode_result \<Rightarrow> jsnum" where
  "by_emission a b = js_sub (emission a) (emission b)"

text \<open>The body of the \<^verbatim>\<open>for ... in\<close> loop: the entry pushed for one mode.\<close>

definition mode_entry :: "jsval \<Rightarrow> jsnum \<Rightarrow> string \<Rightarrow> mode_result" where
  "mode_entry distanceKm carEmission m =
     (let e = calculateEmission distanceKm m;
          p = js_mul (js_div e carEmission) (Fin 100)
      in \<lparr>mode = m, emission = e,
          percentageVsCar = js_div (Math_round (js_mul p (Fin 100))) (Fin 100)\<rparr>)"

text \<open>The baseline: the car emission, or \<open>0.001\<close> when that is \<open>0\<close>.\<close>

definition car_baseline :: "jsval \<Rightarrow> jsnum" where
  "car_baseline distanceKm =
     (let carEmission = calculateEmission distanceKm ''carro''
      in if js_strict_eq carEmission (Fin 0) then Fin (1 / 1000) else carEmission)"

definition calculateAllModes :: "jsval \<Rightarrow> mode_result list" where
  "calculateAllModes distanceKm =
     (case distanceKm of
        JNumber d \<Rightarrow>
          if js_lt d (Fin 0) then []
          else
            (let carEmission = car_baseline distanceKm;
                 results = map (mode_entry distanceKm carEmission) (map fst EMISSION_FACTORS)
             in array_sort by_emission results)
      | _ \<Rightarrow> [])"







section \<open>Route directory (routes-data.js)\<close>

record route =
  origin :: string
  destination :: string
  distanceKM :: real

text \<open>The accented letters are written by their code unit: 0xE3 is a with tilde, 0xED i
  with acute, 0xF3 o with acute, 0xE9 e with acute, 0xE1 a with acute, 0xE2 a with
  circumflex.\<close>

definition routes :: "route list" where
  "routes =
    [
     \<lparr>origin = ''S'' @ [CHR 0xE3] @ ''o Paulo, SP'',
      destination = ''Rio de Janeiro, RJ'', distanceKM = 430\<rparr>,
     \<lparr>origin = ''S'' @ [CHR 0xE3] @ ''o Paulo, SP'',
      destination = ''Bras'' @ [CHR 0xED] @ ''lia, DF'', distanceKM = 1015\<rparr>,
     \<lparr>origin = ''Rio de Janeiro, RJ'',
      destination = ''Bras'' @ [CHR 0xED] @ ''lia, DF'', distanceKM = 1148\<rparr>,
     \<lparr>origin = ''S'' @ [CHR 0xE3] @ ''o Paulo, SP'',
      destination = ''Campinas, SP'', distanceKM = 95\<rparr>,
     \<lparr>origin = ''Rio de Janeiro, RJ'',
      destination = ''Niter'' @ [CHR 0xF3] @ ''i, RJ'', distanceKM = 13\<rparr>,
     \<lparr>origin = ''Belo Horizonte, MG'',
      destination = ''Ouro Preto, MG'', distanceKM = 100\<rparr>,
     \<lparr>origin = ''Porto Alegre, RS'',
      destination = ''Florian'' @ [CHR 0xF3] @ ''polis, SC'', distanceKM = 460\<rparr>,
     \<lparr>origin = ''Porto Alegre, RS'',
      destination = ''Curitiba, PR'', distanceKM = 710\<rparr>,
     \<lparr>origin = ''Curitiba, PR'',
      destination = ''Florian'' @ [CHR 0xF3] @ ''polis, SC'', distanceKM = 300\<rparr>,
     \<lparr>origin = ''Salvador, BA'',
      destination = ''Feira de Santana, BA'', distanceKM = 100\<rparr>,
     \<lparr>origin = ''Salvador, BA'',
      destination = ''Recife, PE'', distanceKM = 800\<rparr>,
     \<lparr>origin = ''Recife, PE'',
      destination = ''Jo'' @ [CHR 0xE3] @ ''o Pessoa, PB'', distanceKM = 120\<rparr>,
     \<lparr>origin = ''Fortaleza, CE'',
      destination = ''Natal, RN'', distanceKM = 530\<rparr>,
     \<lparr>origin = ''Fortaleza, CE'',
      destination = ''S'' @ [CHR 0xE3] @ ''o Lu'' @ [CHR 0xED] @ ''s, MA'', distanceKM = 870\<rparr>,
     \<lparr>origin = ''Manaus, AM'',
      destination = ''Bel'' @ [CHR 0xE9] @ ''m, PA'', distanceKM = 1740\<rparr>,
     \<lparr>origin = ''Bel'' @ [CHR 0xE9] @ ''m, PA'',
      destination = ''Macap'' @ [CHR 0xE1] @ '', AP'', distanceKM = 520\<rparr>,
     \<lparr>origin = ''Goi'' @ [CHR 0xE2] @ ''nia, GO'',
      destination = ''Bras'' @ [CHR 0xED] @ ''lia, DF'', distanceKM = 200\<rparr>,
     \<lparr>origin = ''Goi'' @ [CHR 0xE2] @ ''nia, GO'',
      destination = ''Uberl'' @ [CHR 0xE2] @ ''ndia, MG'', distanceKM = 450\<rparr>,
     \<lparr>origin = ''Uberl'' @ [CHR 0xE2] @ ''ndia, MG'',
      destination = ''Ribeir'' @ [CHR 0xE3] @ ''o Preto, SP'', distanceKM = 320\<rparr>,
     \<lparr>origin = ''Ribeir'' @ [CHR 0xE3] @ ''o Preto, SP'',
      destination = ''S'' @ [CHR 0xE3] @ ''o Jos'' @ [CHR 0xE9] @ '' do Rio Preto, SP'', distanceKM = 220\<rparr>,
     \<lparr>origin = ''Macei'' @ [CHR 0xF3] @ '', AL'',
      destination = ''Aracaju, SE'', distanceKM = 270\<rparr>,
     \<lparr>origin = ''Teresina, PI'',
      destination = ''S'' @ [CHR 0xE3] @ ''o Lu'' @ [CHR 0xED] @ ''s, MA'', distanceKM = 320\<rparr>,
     \<lparr>origin = ''Campo Grande, MS'',
      destination = ''Cuiab'' @ [CHR 0xE1] @ '', MT'', distanceKM = 700\<rparr>,
     \<lparr>origin = ''Cuiab'' @ [CHR 0xE1] @ '', MT'',
      destination = ''Porto Velho, RO'', distanceKM = 780\<rparr>,
     \<lparr>origin = ''Bel'' @ [CHR 0xE9] @ ''m, PA'',
      destination = ''Manaus, AM'', distanceKM = 1740\<rparr>,
     \<lparr>origin = ''Belo Horizonte, MG'',
      destination = ''Rio de Janeiro, RJ'', distanceKM = 440\<rparr>,
     \<lparr>origin = ''Belo Horizonte, MG'',
      destination = ''S'' @ [CHR 0xE3] @ ''o Paulo, SP'', distanceKM = 586\<rparr>,
     \<lparr>origin = ''Porto Alegre, RS'',
      destination = ''S'' @ [CHR 0xE3] @ ''o Paulo, SP'', distanceKM = 1120\<rparr>,
     \<lparr>origin = ''Recife, PE'',
      destination = ''Fortaleza, CE'', distanceKM = 815\<rparr>,
     \<lparr>origin = ''S'' @ [CHR 0xE3] @ ''o Paulo, SP'',
      destination = ''Santos, SP'', distanceKM = 75\<rparr>,
     \<lparr>origin = ''Campina Grande, PB'',
      destination = ''Jo'' @ [CHR 0xE3] @ ''o Pessoa, PB'', distanceKM = 120\<rparr>,
     \<lparr>origin = ''Natal, RN'',
      destination = ''Fortaleza, CE'', distanceKM = 535\<rparr>,
     \<lparr>origin = ''Caxias do Sul, RS'',
      destination = ''Porto Alegre, RS'', distanceKM = 130\<rparr>,
     \<lparr>origin = ''Vit'' @ [CHR 0xF3] @ ''ria, ES'',
      destination = ''Belo Horizonte, MG'', distanceKM = 520\<rparr>,
     \<lparr>origin = ''Campos dos Goytacazes, RJ'',
      destination = ''Rio de Janeiro, RJ'', distanceKM = 280\<rparr>,
     \<lparr>origin = ''Petrolina, PE'',
      destination = ''Juazeiro, BA'', distanceKM = 10\<rparr>
    ]"

text \<open>\<^verbatim>\<open>_normalize(s)\<close> is \<^verbatim>\<open>String(s).trim().toLowerCase()\<close>; on a string,
  \<^verbatim>\<open>String(s)\<close> is \<open>s\<close>.\<close>

definition normalize_str :: "string \<Rightarrow> string" where
  "normalize_str s = toLowerCase (trim s)"

text \<open>The \<^verbatim>\<open>for\<close> loop of \<^verbatim>\<open>findDistance\<close> over the routes still to visit;
  \<open>None\<close> is \<^verbatim>\<open>null\<close>.\<close>

fun findDistance_loop :: "route list \<Rightarrow> string \<Rightarrow> string \<Rightarrow> real option" where
  "findDistance_loop [] oNorm dNorm = None"
| "findDistance_loop (r # rs) oNorm dNorm =
     (if normalize_str (origin r) = oNorm \<and> normalize_str (destination r) = dNorm
      then Some (distanceKM r)
      else if normalize_str (origin r) = dNorm \<and> normalize_str (destination r) = oNorm
      then Some (distanceKM r)
      else findDistance_loop rs oNorm dNorm)"

text \<open>\<^verbatim>\<open>findDistance\<close> over a given route list; \<^verbatim>\<open>!origin\<close> holds of a string
  exactly when it is empty.\<close>

definition findDistance_in :: "route list \<Rightarrow> string \<Rightarrow> string \<Rightarrow> real option" where
  "findDistance_in rs origin_arg destination_arg =
     (if origin_arg = [] \<or> destination_arg = [] then None
      else findDistance_loop rs (normalize_str origin_arg) (normalize_str destination_arg))"

definition findDistance :: "string \<Rightarrow> string \<Rightarrow> real option" where
  "findDistance origin_arg destination_arg = findDistance_in routes origin_arg destination_arg"

section \<open>Vocabulary of the specification\<close>

text \<open>
  Rounding to \<open>k\<close> decimals, half up, as the specification words it: cut \<open>x\<close> after
  \<open>k\<close> decimals; keep that when the part cut off is below half a unit of the last
  decimal, take the next multiple above otherwise.
\<close>

definition round_dp :: "nat \<Rightarrow> real \<Rightarrow> real" where
  "round_dp k x =
     (let s = 10 ^ k; n = \<lfloor>x * s\<rfloor>
      in if x * s - of_int n < 1 / 2 then of_int n / s else (of_int n + 1) / s)"


text \<open>A finite number: neither \<open>NaN\<close> nor an infinity.\<close>

definition is_finite :: "jsnum \<Rightarrow> bool" where
  "is_finite n = (case n of Fin x \<Rightarrow> True | _ \<Rightarrow> False)"


text \<open>Route \<open>r\<close> joins the cities \<open>a\<close> and \<open>b\<close>, in one direction or the other, the
  names compared after normalisation.\<close>

definition joins :: "string \<Rightarrow> string \<Rightarrow> route \<Rightarrow> bool" where
  "joins a b r =
     ((normalize_str (origin r) = normalize_str a \<and> normalize_str (destination r) = normalize_str b) \<or>
      (normalize_str (origin r) = normalize_str b \<and> normalize_str (destination r) = normalize_str a))"

text \<open>The real number a finite \<open>jsnum\<close> stands for, and the sort key of an entry.\<close>

definition fin_val :: "jsnum \<Rightarrow> real" where
  "fin_val n = (case n of Fin x \<Rightarrow> x | _ \<Rightarrow> 0)"


section \<open>Rounding\<close>

text \<open>
  \<^verbatim>\<open>Math.round(x * 10^k) / 10^k\<close> is rounding half up to \<open>k\<close> decimals
  (\<open>round_dp_floor\<close>): the result is a multiple of \<open>10^-k\<close> at most half a unit
  away from \<open>x\<close>, and the upper one when \<open>x\<close> lies half-way (\<open>round_dp_near\<close>).
\<close>

lemma floor_add_half:
  fixes y :: real
  shows "of_int \<lfloor>y + 1 / 2\<rfloor> = (if y - of_int \<lfloor>y\<rfloor> < 1 / 2 then of_int \<lfloor>y\<rfloor> else of_int \<lfloor>y\<rfloor> + (1::real))"
proof (cases "y - of_int \<lfloor>y\<rfloor> < 1 / 2")
  case True
  have "\<lfloor>y + 1 / 2\<rfloor> = \<lfloor>y\<rfloor>"
    using True by (intro floor_unique) linarith+
  with True show ?thesis by simp
next
  case False
  have "\<lfloor>y + 1 / 2\<rfloor> = \<lfloor>y\<rfloor> + 1"
    using False by (intro floor_unique) (simp; linarith)+
  with False show ?thesis by simp
qed

lemma round_dp_floor: "round_dp k x = of_int \<lfloor>x * 10 ^ k + 1 / 2\<rfloor> / 10 ^ k"
  by (simp add: round_dp_def Let_def floor_add_half)

lemma round_dp_near: "round_dp k x - 1 / (2 * 10 ^ k) \<le> x \<and> x < round_dp k x + 1 / (2 * 10 ^ k)"
proof -
  let ?s = "(10::real) ^ k"
  let ?n = "\<lfloor>x * ?s + 1 / 2\<rfloor>"
  have s: "0 < ?s" by simp
  have 1: "of_int ?n \<le> x * ?s + 1 / 2" by (rule of_int_floor_le)
  have 2: "x * ?s + 1 / 2 < of_int ?n + 1" by linarith
  have a': "of_int ?n - 1 / 2 \<le> x * ?s" using 1 by linarith
  have b': "x * ?s < of_int ?n + 1 / 2" using 2 by linarith
  have a: "(of_int ?n - 1 / 2) / ?s \<le> x"
    using a' s by (simp only: pos_divide_le_eq)
  have b: "x < (of_int ?n + 1 / 2) / ?s"
    using b' s by (simp only: pos_less_divide_eq)
  have c: "(of_int ?n - 1 / 2) / ?s = round_dp k x - 1 / (2 * 10 ^ k)"
    by (simp add: round_dp_floor diff_divide_distrib)
  have d: "(of_int ?n + 1 / 2) / ?s = round_dp k x + 1 / (2 * 10 ^ k)"
    by (simp add: round_dp_floor add_divide_distrib)
  from a b c d show ?thesis by simp
qed


lemma round_dp_0 [simp]: "round_dp k 0 = 0"
  by (simp add: round_dp_floor)

section \<open>Emissions of one mode\<close>



lemma fin_val_Fin [simp]: "fin_val (Fin x) = x"
  by (simp add: fin_val_def)




section \<open>The calculator on single values\<close>

lemmas string_defs = toLowerCase_def trim_def is_white_def lower_char_def is_upper_def



text \<open>
  Claim C4. The car mode (key \<^verbatim>\<open>carro\<close> of the factor table) has factor \<open>0.12\<close> and
  \<^verbatim>\<open>calculateEmission(100, car)\<close> is \<open>12.00\<close>; the bicycle mode (key
  \<^verbatim>\<open>bicicleta\<close>) has factor \<open>0\<close> and \<^verbatim>\<open>calculateEmission(100, bicycle)\<close> is \<open>0\<close>.
  The specification names the modes in English; the table's own keys are the
  Portuguese words.
\<close>
theorem calculateEmission_examples:
  "map_of EMISSION_FACTORS ''carro'' = Some (12 / 100) \<and>
   calculateEmission (JNumber (Fin 100)) ''carro'' = Fin 12 \<and>
   map_of EMISSION_FACTORS ''bicicleta'' = Some 0 \<and>
   calculateEmission (JNumber (Fin 100)) ''bicicleta'' = Fin 0"
  by (simp add: calculateEmission_def EMISSION_FACTORS_def string_defs)





lemma js_lt_irrefl [simp]: "\<not> js_lt x x"
  by (cases x) auto















lemma length_sort_insert [simp]: "length (sort_insert cmp x ys) = Suc (length ys)"
  by (induction ys) auto

lemma length_array_sort [simp]: "length (array_sort cmp xs) = length xs"
  by (induction xs) (auto simp: array_sort_def)

lemma length_calculateAllModes:
  "length (calculateAllModes v) = (if rejected v then 0 else length EMISSION_FACTORS)"
  by (cases v) (auto simp: calculateAllModes_def rejected_def Let_def)

text \<open>
  Claim C10. \<^verbatim>\<open>calculateAllModes(d)\<close> is the empty array exactly when \<open>d\<close> is not of
  type number or is a negative number: a rejected distance gets no entry at all, and
  every other distance gets entries. (\<open>NaN\<close> has type number and is not negative.)
\<close>
theorem calculateAllModes_empty_iff_rejected:
  "(calculateAllModes v = []) = (case v of JNumber n \<Rightarrow> js_lt n (Fin 0) | _ \<Rightarrow> True)"
proof -
  have "(calculateAllModes v = []) = (length (calculateAllModes v) = 0)"
    by simp
  also have "\<dots> = rejected v"
    by (simp add: length_calculateAllModes EMISSION_FACTORS_def)
  finally show ?thesis
    by (simp add: rejected_def)
qed

theorem calculateAllModes_empty_iff_rejected_witness:
  "calculateAllModes (JString ''430'') = [] \<and> calculateAllModes (JNumber (Fin (- 1))) = [] \<and>
   calculateAllModes (JNumber (Fin 0)) \<noteq> [] \<and> calculateAllModes (JNumber NaN) \<noteq> []"
  using calculateAllModes_empty_iff_rejected [of "JString ''430''"]
    calculateAllModes_empty_iff_rejected [of "JNumber (Fin (- 1))"]
    calculateAllModes_empty_iff_rejected [of "JNumber (Fin 0)"]
    calculateAllModes_empty_iff_rejected [of "JNumber NaN"]
  by simp

section \<open>Comparing all modes\<close>

lemma mode_mode_entry [simp]: "mode (mode_entry v c m) = m"
  by (simp add: mode_entry_def Let_def)

lemma emission_mode_entry [simp]: "emission (mode_entry v c m) = calculateEmission v m"
  by (simp add: mode_entry_def Let_def)





















lemma is_finite_Fin [simp]: "is_finite (Fin x)"
  by (simp add: is_finite_def)











section \<open>Looking up a distance\<close>

lemma findDistance_loop_sym: "findDistance_loop rs a b = findDistance_loop rs b a"
proof (induction rs)
  case Nil
  show ?case by simp
next
  case (Cons r rs)
  show ?case
  proof (cases "normalize_str (origin r) = a \<and> normalize_str (destination r) = b")
    case True
    then show ?thesis by simp
  next
    case forward: False
    show ?thesis
    proof (cases "normalize_str (origin r) = b \<and> normalize_str (destination r) = a")
      case True
      then show ?thesis by simp
    next
      case False
      have "findDistance_loop (r # rs) a b = findDistance_loop rs a b"
        by (simp only: findDistance_loop.simps forward False if_False)
      also have "\<dots> = findDistance_loop rs b a" by (rule Cons.IH)
      also have "\<dots> = findDistance_loop (r # rs) b a"
        by (simp only: findDistance_loop.simps forward False if_False)
      finally show ?thesis .
    qed
  qed
qed

lemma findDistance_loop_find:
  "findDistance_loop rs (normalize_str a) (normalize_str b) = map_option distanceKM (find (joins a b) rs)"
  by (induction rs) (auto simp: joins_def)

lemma findDistance_in_find:
  "a \<noteq> [] \<Longrightarrow> b \<noteq> [] \<Longrightarrow> findDistance_in rs a b = map_option distanceKM (find (joins a b) rs)"
  by (simp add: findDistance_in_def findDistance_loop_find)

lemma joins_sym: "joins a b r = joins b a r"
  by (auto simp: joins_def)

lemma find_first:
  "\<forall>p\<in>set pre. \<not> P p \<Longrightarrow> P r \<Longrightarrow> find P (pre @ r # post) = Some r"
  by (induction pre) auto

lemma find_none: "\<forall>p\<in>set rs. \<not> P p \<Longrightarrow> find P rs = None"
  by (induction rs) auto

lemma trim_padding:
  assumes "list_all is_white u" and "list_all is_white w"
  shows "trim (u @ s @ w) = trim s"
proof -
  have u: "\<And>x. x \<in> set u \<Longrightarrow> is_white x" and w: "\<And>x. x \<in> set (rev w) \<Longrightarrow> is_white x"
    using assms by (simp_all add: list_all_iff)
  have 1: "dropWhile is_white (u @ s @ w) = dropWhile is_white (s @ w)"
    by (rule dropWhile_append2) (rule u)
  show ?thesis
  proof (cases "\<exists>x\<in>set s. \<not> is_white x")
    case True
    then obtain x where x: "x \<in> set s" "\<not> is_white x" by blast
    have "dropWhile is_white (s @ w) = dropWhile is_white s @ w"
      using x by (rule dropWhile_append1)
    then have "rev (dropWhile is_white (u @ s @ w)) = rev w @ rev (dropWhile is_white s)"
      by (simp add: 1)
    moreover have "dropWhile is_white (rev w @ rev (dropWhile is_white s)) =
        dropWhile is_white (rev (dropWhile is_white s))"
      by (rule dropWhile_append2) (rule w)
    ultimately show ?thesis by (simp add: trim_def)
  next
    case False
    then have s: "\<And>x. x \<in> set s \<Longrightarrow> is_white x" by blast
    have "dropWhile is_white (s @ w) = dropWhile is_white w"
      by (rule dropWhile_append2) (rule s)
    also have "\<dots> = []" using assms(2) by (simp add: list_all_iff)
    finally have "dropWhile is_white (u @ s @ w) = []" by (simp only: 1)
    then have "trim (u @ s @ w) = []" by (simp only: trim_def rev.simps dropWhile.simps)
    moreover have "trim s = []"
    proof -
      have "dropWhile is_white s = []" using s by simp
      then show ?thesis by (simp only: trim_def rev.simps dropWhile.simps)
    qed
    ultimately show ?thesis by simp
  qed
qed

lemma is_white_lower_char: "is_white (lower_char c) = is_white c"
proof (cases c)
  case (Char b0 b1 b2 b3 b4 b5 b6 b7)
  show ?thesis
    unfolding Char
    by (cases b0; cases b1; cases b2; cases b3; cases b4; cases b5; cases b6; cases b7)
       (simp_all add: is_white_def lower_char_def is_upper_def Let_def)
qed

lemma dropWhile_toLowerCase:
  "dropWhile is_white (toLowerCase s) = toLowerCase (dropWhile is_white s)"
  by (induction s) (simp_all add: toLowerCase_def is_white_lower_char)

lemma trim_toLowerCase: "trim (toLowerCase s) = toLowerCase (trim s)"
proof -
  have r: "\<And>t. rev (toLowerCase t) = toLowerCase (rev t)"
    by (simp add: toLowerCase_def rev_map)
  show ?thesis
    by (simp add: trim_def dropWhile_toLowerCase r)
qed

lemma normalize_str_case:
  assumes "toLowerCase s = toLowerCase t"
  shows "normalize_str s = normalize_str t"
proof -
  have "normalize_str s = trim (toLowerCase s)"
    by (simp add: normalize_str_def trim_toLowerCase)
  also have "\<dots> = trim (toLowerCase t)" by (simp add: assms)
  also have "\<dots> = normalize_str t"
    by (simp add: normalize_str_def trim_toLowerCase)
  finally show ?thesis .
qed

lemma normalize_str_padding:
  "list_all is_white u \<Longrightarrow> list_all is_white w \<Longrightarrow> normalize_str (u @ s @ w) = normalize_str s"
  by (simp add: normalize_str_def trim_padding)

lemma routes_named:
  "list_all (\<lambda>r. normalize_str (origin r) \<noteq> [] \<and> normalize_str (destination r) \<noteq> []) routes"
  by code_simp

lemma findDistance_blank:
  assumes "normalize_str a = [] \<or> normalize_str b = []"
  shows "findDistance a b = None"
proof (cases "a = [] \<or> b = []")
  case True
  then show ?thesis by (auto simp: findDistance_def findDistance_in_def)
next
  case False
  have "\<forall>r\<in>set routes. \<not> joins a b r"
    using routes_named assms by (auto simp: list_all_iff joins_def)
  then have "find (joins a b) routes = None" by (rule find_none)
  with False show ?thesis by (simp add: findDistance_def findDistance_in_find)
qed

lemma findDistance_example:
  "findDistance ('' s'' @ [CHR 0xE3] @ ''o paulo, sp '') ''RIO DE JANEIRO, RJ'' = Some 430"
  by code_simp

text \<open>
  Claim C3. \<^verbatim>\<open>findDistance\<close> is symmetric: for all strings \<open>a\<close> and \<open>b\<close> the lookup
  of \<open>(a, b)\<close> and the lookup of \<open>(b, a)\<close> give the same answer, over the stored table
  and over any route list, duplicates and reversed duplicates with other distances
  included: each route is tested against both directions before the next route is
  looked at.
\<close>
theorem findDistance_symmetric:
  "findDistance_in rs a b = findDistance_in rs b a \<and> findDistance a b = findDistance b a"
proof -
  have "findDistance_in rs a b = findDistance_in rs b a" for rs
    using findDistance_loop_sym [of rs "normalize_str a" "normalize_str b"]
    by (auto simp: findDistance_in_def)
  then show ?thesis by (simp add: findDistance_def)
qed

theorem findDistance_symmetric_witness:
  "findDistance ''Natal, RN'' ''Fortaleza, CE'' = Some 530 \<and>
   findDistance ''Fortaleza, CE'' ''Natal, RN'' = Some 530"
proof -
  have "findDistance ''Fortaleza, CE'' ''Natal, RN'' = Some 530" by code_simp
  with findDistance_symmetric [of routes "''Natal, RN''" "''Fortaleza, CE''"] show ?thesis
    by simp
qed

text \<open>
  Claim C6, as amended. \<^verbatim>\<open>findDistance\<close> compares city names after trimming and
  lower-casing, in both directions, and answers with the distance of the first stored
  route, in list order, that joins the two cities in either direction: a stored route
  \<open>(A, B, d)\<close> answers the queries \<open>(A, B)\<close> and \<open>(B, A)\<close> with \<open>d\<close> when no earlier
  route joins the same pair. When an argument is empty or no stored route joins the
  pair, the answer is \<^verbatim>\<open>null\<close> (\<open>None\<close>), never \<open>0\<close> and never an exception; a blank
  argument matches no route of the stored table. The function is total. In particular
  the lookup of the lower-case, padded name \<^verbatim>\<open>" s\<close>[0xE3]\<^verbatim>\<open>o paulo, sp "\<close> and of
  \<^verbatim>\<open>"RIO DE JANEIRO, RJ"\<close> is \<open>430\<close>.
\<close>
theorem findDistance_first_joining_route:
  "(a \<noteq> [] \<and> b \<noteq> [] \<longrightarrow>
      findDistance_in rs a b = map_option distanceKM (find (joins a b) rs)) \<and>
   (a \<noteq> [] \<and> b \<noteq> [] \<and> joins a b r \<and> (\<forall>p\<in>set pre. \<not> joins a b p) \<longrightarrow>
      findDistance_in (pre @ r # post) a b = Some (distanceKM r) \<and>
      findDistance_in (pre @ r # post) b a = Some (distanceKM r)) \<and>
   (a = [] \<or> b = [] \<or> (\<forall>p\<in>set rs. \<not> joins a b p) \<longrightarrow> findDistance_in rs a b = None) \<and>
   (list_all is_white u \<and> list_all is_white w \<longrightarrow>
      normalize_str (u @ s @ w) = normalize_str s) \<and>
   (toLowerCase s = toLowerCase t \<longrightarrow> normalize_str s = normalize_str t) \<and>
   (normalize_str a = [] \<or> normalize_str b = [] \<longrightarrow> findDistance a b = None) \<and>
   findDistance ('' s'' @ [CHR 0xE3] @ ''o paulo, sp '') ''RIO DE JANEIRO, RJ'' = Some 430"
proof -
  have 1: "a \<noteq> [] \<and> b \<noteq> [] \<longrightarrow>
      findDistance_in rs a b = map_option distanceKM (find (joins a b) rs)"
    by (simp add: findDistance_in_find)
  have 2: "a \<noteq> [] \<and> b \<noteq> [] \<and> joins a b r \<and> (\<forall>p\<in>set pre. \<not> joins a b p) \<longrightarrow>
      findDistance_in (pre @ r # post) a b = Some (distanceKM r) \<and>
      findDistance_in (pre @ r # post) b a = Some (distanceKM r)"
  proof (intro impI, elim conjE)
    assume ne: "a \<noteq> []" "b \<noteq> []" and j: "joins a b r" and pre: "\<forall>p\<in>set pre. \<not> joins a b p"
    have "find (joins a b) (pre @ r # post) = Some r"
      by (rule find_first [OF pre j])
    then have f: "findDistance_in (pre @ r # post) a b = Some (distanceKM r)"
      using ne by (simp add: findDistance_in_find)
    have "findDistance_in (pre @ r # post) b a = findDistance_in (pre @ r # post) a b"
      using findDistance_loop_sym [of "pre @ r # post" "normalize_str a" "normalize_str b"]
      by (auto simp: findDistance_in_def)
    with f show "findDistance_in (pre @ r # post) a b = Some (distanceKM r) \<and>
      findDistance_in (pre @ r # post) b a = Some (distanceKM r)" by simp
  qed
  have 3: "a = [] \<or> b = [] \<or> (\<forall>p\<in>set rs. \<not> joins a b p) \<longrightarrow> findDistance_in rs a b = None"
  proof (cases "a = [] \<or> b = []")
    case True
    then show ?thesis by (auto simp: findDistance_in_def)
  next
    case False
    then show ?thesis by (auto simp: findDistance_in_find find_none)
  qed
  have 4: "list_all is_white u \<and> list_all is_white w \<longrightarrow>
      normalize_str (u @ s @ w) = normalize_str s"
    by (intro impI, elim conjE) (rule normalize_str_padding)
  have 5: "toLowerCase s = toLowerCase t \<longrightarrow> normalize_str s = normalize_str t"
    by (rule impI) (rule normalize_str_case)
  have 6: "normalize_str a = [] \<or> normalize_str b = [] \<longrightarrow> findDistance a b = None"
    by (rule impI) (rule findDistance_blank)
  show ?thesis
    by (intro conjI 1 2 3 4 5 6 findDistance_example)
qed

text \<open>
  As stated, every stored route answers the query for its own pair with its own
  distance. The table stores Natal to Fortaleza with \<open>535\<close> after Fortaleza to Natal with
  \<open>530\<close>; the earlier route answers both directions.
\<close>

theorem findDistance_shadowed_route_counterexample:
  "routes ! 31 = \<lparr>origin = ''Natal, RN'', destination = ''Fortaleza, CE'', distanceKM = 535\<rparr> \<and>
   findDistance ''Natal, RN'' ''Fortaleza, CE'' = Some 530"
  by code_simp

theorem findDistance_first_joining_route_witness:
  "findDistance_in
     [\<lparr>origin = ''Recife, PE'', destination = ''Fortaleza, CE'', distanceKM = 815\<rparr>,
      \<lparr>origin = ''Fortaleza, CE'', destination = ''Natal, RN'', distanceKM = 530\<rparr>,
      \<lparr>origin = ''Natal, RN'', destination = ''Fortaleza, CE'', distanceKM = 535\<rparr>]
     '' natal, rn'' ''FORTALEZA, CE'' = Some 530 \<and>
   findDistance_in
     [\<lparr>origin = ''Recife, PE'', destination = ''Fortaleza, CE'', distanceKM = 815\<rparr>]
     '' natal, rn'' ''FORTALEZA, CE'' = None \<and>
   normalize_str ('' '' @ ''Natal'' @ ''  '') = normalize_str ''Natal'' \<and>
   normalize_str ''Natal'' = normalize_str ''NATAL'' \<and>
   findDistance ''   '' ''Natal, RN'' = None"
proof -
  let ?a = "'' natal, rn''" and ?b = "''FORTALEZA, CE''"
  let ?p = "\<lparr>origin = ''Recife, PE'', destination = ''Fortaleza, CE'', distanceKM = 815\<rparr>"
  let ?r = "\<lparr>origin = ''Fortaleza, CE'', destination = ''Natal, RN'', distanceKM = 530\<rparr>"
  let ?q = "\<lparr>origin = ''Natal, RN'', destination = ''Fortaleza, CE'', distanceKM = 535\<rparr>"
  note T = findDistance_first_joining_route
    [where a = ?a and b = ?b and rs = "[?p]" and r = ?r and pre = "[?p]" and post = "[?q]"
       and u = "'' ''" and w = "''  ''" and s = "''Natal''" and t = "''NATAL''"]
  note B = findDistance_first_joining_route
    [where a = "''   ''" and b = "''Natal, RN''" and rs = "[]" and r = ?r and pre = "[]"
       and post = "[]" and u = "[]" and w = "[]" and s = "[]" and t = "[]"]
  have np: "\<not> joins ?a ?b ?p" and jr: "joins ?a ?b ?r"
    by (simp_all add: joins_def normalize_str_def string_defs)
  have h2: "?a \<noteq> [] \<and> ?b \<noteq> [] \<and> joins ?a ?b ?r \<and> (\<forall>p\<in>set [?p]. \<not> joins ?a ?b p)"
    using np jr by simp
  have h3: "?a = [] \<or> ?b = [] \<or> (\<forall>p\<in>set [?p]. \<not> joins ?a ?b p)"
    using np by simp
  have h4: "list_all is_white '' '' \<and> list_all is_white ''  ''"
    by (simp add: is_white_def)
  have h5: "toLowerCase ''Natal'' = toLowerCase ''NATAL''"
    by (simp add: string_defs)
  have h6: "normalize_str ''   '' = [] \<or> normalize_str ''Natal, RN'' = []"
    by (simp add: normalize_str_def string_defs)
  have c2: "findDistance_in ([?p] @ ?r # [?q]) ?a ?b = Some (distanceKM ?r)"
    using T [THEN conjunct2, THEN conjunct1, THEN mp, OF h2] by (rule conjunct1)
  have c3: "findDistance_in [?p] ?a ?b = None"
    by (rule T [THEN conjunct2, THEN conjunct2, THEN conjunct1, THEN mp, OF h3])
  have c4: "normalize_str ('' '' @ ''Natal'' @ ''  '') = normalize_str ''Natal''"
    by (rule T [THEN conjunct2, THEN conjunct2, THEN conjunct2, THEN conjunct1, THEN mp, OF h4])
  have c5: "normalize_str ''Natal'' = normalize_str ''NATAL''"
    by (rule T [THEN conjunct2, THEN conjunct2, THEN conjunct2, THEN conjunct2, THEN conjunct1,
          THEN mp, OF h5])
  have c6: "findDistance ''   '' ''Natal, RN'' = None"
    by (rule B [THEN conjunct2, THEN conjunct2, THEN conjunct2, THEN conjunct2, THEN conjunct2,
          THEN conjunct1, THEN mp, OF h6])
  from c2 have c2': "findDistance_in [?p, ?r, ?q] ?a ?b = Some 530" by simp
  show ?thesis
    by (intro conjI c2' c3 c4 c5 c6)
qed

end
